theory Spec2Isabelle
  imports Main "HOL-Library.Word"
begin

section \<open>Errors\<close>

text \<open>
  Every way in which a function of \<^verbatim>\<open>amount.cc\<close> can leave without returning.
  The three \<^verbatim>\<open>amount_error\<close> exceptions are named after their kind; the
  message thrown is given beside each.
\<close>

datatype error =
    CommodityMismatch   \<comment> \<open>"Adding/Subtracting amounts with different commodities"\<close>
  | DivideByZero        \<comment> \<open>"Divide by zero"\<close>
  | UnterminatedQuote   \<comment> \<open>"Quoted commodity symbol lacks closing quote"\<close>
  | AssertionFailed     \<comment> \<open>an \<^verbatim>\<open>assert\<close> that does not hold\<close>
  | NullPointer         \<comment> \<open>\<^verbatim>\<open>commodity->...\<close> through a pointer that is NULL or dangling\<close>
  | GmpDivisionByZero   \<comment> \<open>\<^verbatim>\<open>mpz_tdiv_q\<close> with a zero divisor: GMP traps\<close>
  | ReadPastEnd         \<comment> \<open>a C string read beyond its terminator\<close>

section \<open>The GMP functions used\<close>

text \<open>
  An \<^verbatim>\<open>mpz_t\<close> is an unbounded integer: \<^typ>\<open>int\<close>. \<^verbatim>\<open>mpz_tdiv_q\<close>,
  \<^verbatim>\<open>mpz_tdiv_r\<close> and \<^verbatim>\<open>mpz_tdiv_qr\<close> divide rounding the quotient towards
  zero; the remainder has the sign of the dividend.
\<close>

definition mpz_tdiv_q :: "int \<Rightarrow> int \<Rightarrow> int" where
  "mpz_tdiv_q n d = sgn n * sgn d * (\<bar>n\<bar> div \<bar>d\<bar>)"

definition mpz_tdiv_r :: "int \<Rightarrow> int \<Rightarrow> int" where
  "mpz_tdiv_r n d = n - d * mpz_tdiv_q n d"

definition mpz_ui_pow_ui :: "int \<Rightarrow> nat \<Rightarrow> int" where
  "mpz_ui_pow_ui b e = b ^ e"

section \<open>Rounding\<close>

text \<open>
  \<^verbatim>\<open>mpz_round(out, value, value_prec, round_prec)\<close>. The two precisions are C
  \<^verbatim>\<open>int\<close>s; every caller passes values below \<open>2^16\<close>, so they are modelled as
  \<^typ>\<open>int\<close>. The global scratch integer \<^verbatim>\<open>divisor\<close> is rebound as the code
  overwrites it.
\<close>

definition mpz_round :: "int \<Rightarrow> int \<Rightarrow> int \<Rightarrow> error + int" where
  "mpz_round val value_prec round_prec =
     (if \<not> value_prec > round_prec then Inl AssertionFailed
      else
        let divisor = mpz_ui_pow_ui 10 (nat (value_prec - round_prec));
            quotient = mpz_tdiv_q val divisor;
            remainder = mpz_tdiv_r val divisor;
            divisor = divisor div 10;
            divisor = divisor * 5;
            out =
              (if remainder < 0 then
                 let divisor = - divisor in
                 if remainder < divisor then
                   let divisor = mpz_ui_pow_ui 10 (nat (value_prec - round_prec));
                       remainder = divisor + remainder;
                       remainder = 0 - remainder
                   in val + remainder
                 else val - remainder
               else
                 if remainder \<ge> divisor then
                   let divisor = mpz_ui_pow_ui 10 (nat (value_prec - round_prec));
                       remainder = divisor - remainder
                   in val + remainder
                 else val - remainder);
            divisor = mpz_ui_pow_ui 10 (nat (value_prec - round_prec))
        in Inr (mpz_tdiv_q out divisor))"

section \<open>Data model\<close>

text \<open>
  \<^verbatim>\<open>amount_t::bigint_t\<close>: the shared cell holding a magnitude and its scale
  \<^verbatim>\<open>prec\<close>, an \<^verbatim>\<open>unsigned short\<close>. Cells are modelled by value: an amount
  carries the contents of the cell its \<^verbatim>\<open>quantity\<close> points to, \<open>None\<close> being the
  NULL pointer. \<^verbatim>\<open>ref\<close> is the reference count as seen through this amount.
\<close>

record bigint_t =
  val :: int
  prec :: "16 word"
  bigint_flags :: "16 word"
  ref :: "32 word"
  index :: "32 word"

text \<open>\<^verbatim>\<open>bigint_t()\<close> and \<^verbatim>\<open>bigint_t(const bigint_t& other)\<close>.\<close>

definition new_bigint :: bigint_t where
  "new_bigint = \<lparr>val = 0, prec = 0, bigint_flags = 0, ref = 1, index = 0\<rparr>"

definition copy_bigint :: "bigint_t \<Rightarrow> bigint_t" where
  "copy_bigint other = \<lparr>val = val other, prec = prec other, bigint_flags = 0, ref = 1, index = 0\<rparr>"

text \<open>
  Modelled from the spec: the masks \<^verbatim>\<open>COMMODITY_STYLE_*\<close> are defined in
  \<^verbatim>\<open>amount.h\<close>, which is not among the sources. The specification lists the
  flags suffixed, separated, thousands, european and no-market; they are taken to be
  distinct single bits and \<^verbatim>\<open>COMMODITY_STYLE_DEFAULTS\<close> to be no bit, so that the
  \<^verbatim>\<open>unsigned int\<close> holding them is the set of the bits in it, \<^verbatim>\<open>|=\<close> is
  union and \<^verbatim>\<open>flags & BIT\<close> is membership.
\<close>

datatype style = SUFFIXED | SEPARATED | EUROPEAN | THOUSANDS | NOMARKET

text \<open>
  The fields of \<^verbatim>\<open>commodity_t\<close> that \<^verbatim>\<open>amount.cc\<close> reads and writes when it
  parses, prints and multiplies; the price history and the updater are left out.
\<close>

record commodity_t =
  symbol :: string
  quote :: bool
  precision :: "32 word"
  flags :: "style set"

text \<open>
  A \<^verbatim>\<open>commodity_t *\<close> is an address into the list of the commodity objects
  allocated so far; \<open>None\<close> is NULL.
\<close>

type_synonym cptr = nat

record amount_t =
  quantity :: "bigint_t option"
  commodity :: "cptr option"

text \<open>
  The statics of the translation unit: the commodity objects, the interning map
  \<^verbatim>\<open>commodity_t::commodities\<close>, \<^verbatim>\<open>commodity_t::null_commodity\<close> and
  \<^verbatim>\<open>true_value\<close>.
\<close>

record registry =
  heap :: "commodity_t list"
  commodities :: "string \<rightharpoonup> cptr"
  null_commodity :: "cptr option"
  true_value :: bigint_t

definition deref :: "registry \<Rightarrow> cptr option \<Rightarrow> error + commodity_t" where
  "deref st p =
     (case p of
        None \<Rightarrow> Inl NullPointer
      | Some c \<Rightarrow> if c < length (heap st) then Inr (heap st ! c) else Inl NullPointer)"

section \<open>Construction, copying, assignment\<close>

text \<open>The default constructor leaves both pointers NULL.\<close>

definition absent :: amount_t where
  "absent = \<lparr>quantity = None, commodity = None\<rparr>"

text \<open>\<^verbatim>\<open>amount_t(const int value)\<close>; \<^verbatim>\<open>value\<close> is a 32-bit \<^verbatim>\<open>int\<close>.\<close>

definition amount_of_int :: "registry \<Rightarrow> 32 word \<Rightarrow> amount_t" where
  "amount_of_int st v =
     (if v \<noteq> 0 then
        \<lparr>quantity = Some (new_bigint\<lparr>val := sint v\<rparr>), commodity = null_commodity st\<rparr>
      else \<lparr>quantity = None, commodity = None\<rparr>)"

text \<open>\<^verbatim>\<open>amount_t(const unsigned int value)\<close>.\<close>

definition amount_of_uint :: "registry \<Rightarrow> 32 word \<Rightarrow> amount_t" where
  "amount_of_uint st v =
     (if v \<noteq> 0 then
        \<lparr>quantity = Some (new_bigint\<lparr>val := uint v\<rparr>), commodity = null_commodity st\<rparr>
      else \<lparr>quantity = None, commodity = None\<rparr>)"

text \<open>
  \<^verbatim>\<open>amount_t(const bool value)\<close>: \<^verbatim>\<open>true\<close> shares the static cell
  \<^verbatim>\<open>true_value\<close> and counts one more reference to it.
\<close>

definition amount_of_bool :: "registry \<Rightarrow> bool \<Rightarrow> registry \<times> amount_t" where
  "amount_of_bool st v =
     (if v then
        let tv = (true_value st)\<lparr>ref := ref (true_value st) + 1\<rparr>
        in (st\<lparr>true_value := tv\<rparr>, \<lparr>quantity = Some tv, commodity = null_commodity st\<rparr>)
      else (st, \<lparr>quantity = None, commodity = None\<rparr>))"

text \<open>
  \<^verbatim>\<open>_init\<close>: a cell to write into. A cell that this amount alone holds is kept
  as it is, scale included; otherwise a new one is allocated.
\<close>

definition amount_init :: "amount_t \<Rightarrow> amount_t" where
  "amount_init a =
     (case quantity a of
        None \<Rightarrow> a\<lparr>quantity := Some new_bigint\<rparr>
      | Some q \<Rightarrow> if ref q > 1 then a\<lparr>quantity := Some new_bigint\<rparr> else a)"

text \<open>\<^verbatim>\<open>_dup\<close>: copy on write. The caller has checked that the quantity is there.\<close>

definition dup_cell :: "bigint_t \<Rightarrow> bigint_t" where
  "dup_cell q = (if ref q > 1 then copy_bigint q else q)"

definition amount_dup :: "amount_t \<Rightarrow> amount_t" where
  "amount_dup a = a\<lparr>quantity := map_option dup_cell (quantity a)\<rparr>"

text \<open>
  Modelled from the spec: \<^verbatim>\<open>_clear\<close> is defined in \<^verbatim>\<open>amount.h\<close>, which is
  not among the sources. It leaves the amount without a value: quantity and commodity
  both absent.
\<close>

definition amount_clear :: "amount_t \<Rightarrow> amount_t" where
  "amount_clear a = \<lparr>quantity = None, commodity = None\<rparr>"

text \<open>
  Modelled from the spec: the copy constructor is defined in \<^verbatim>\<open>amount.h\<close>,
  which is not among the sources. Copying an amount shares its cell and counts one
  more reference; an amount without a quantity has no commodity either.
\<close>

definition amount_copy_ctor :: "amount_t \<Rightarrow> amount_t" where
  "amount_copy_ctor amt =
     (case quantity amt of
        None \<Rightarrow> \<lparr>quantity = None, commodity = None\<rparr>
      | Some q \<Rightarrow> \<lparr>quantity = Some (q\<lparr>ref := ref q + 1\<rparr>), commodity = commodity amt\<rparr>)"

text \<open>
  \<^verbatim>\<open>_copy(amt)\<close>, for a receiver that does not hold \<^verbatim>\<open>amt\<close>'s cell already
  (every call below is on a receiver without a quantity). \<^verbatim>\<open>amt.quantity\<close> is
  dereferenced without a check.
\<close>

definition amount_copy :: "amount_t \<Rightarrow> amount_t \<Rightarrow> error + amount_t" where
  "amount_copy a amt =
     (case quantity amt of
        None \<Rightarrow> Inl NullPointer
      | Some q \<Rightarrow> Inr \<lparr>quantity = Some (q\<lparr>ref := ref q + 1\<rparr>), commodity = commodity amt\<rparr>)"

text \<open>\<^verbatim>\<open>operator=(const int value)\<close> and \<^verbatim>\<open>operator=(const unsigned int value)\<close>.\<close>

definition assign_int :: "registry \<Rightarrow> amount_t \<Rightarrow> 32 word \<Rightarrow> amount_t" where
  "assign_int st a v =
     (if v = 0 then (if quantity a \<noteq> None then amount_clear a else a)
      else
        let a = a\<lparr>commodity := null_commodity st\<rparr>;
            a = amount_init a
        in a\<lparr>quantity := map_option (\<lambda>q. q\<lparr>val := sint v\<rparr>) (quantity a)\<rparr>)"

definition assign_uint :: "registry \<Rightarrow> amount_t \<Rightarrow> 32 word \<Rightarrow> amount_t" where
  "assign_uint st a v =
     (if v = 0 then (if quantity a \<noteq> None then amount_clear a else a)
      else
        let a = a\<lparr>commodity := null_commodity st\<rparr>;
            a = amount_init a
        in a\<lparr>quantity := map_option (\<lambda>q. q\<lparr>val := uint v\<rparr>) (quantity a)\<rparr>)"

text \<open>
  \<^verbatim>\<open>_resize(prec)\<close>: truncating when the scale shrinks, exact when it grows.
\<close>

definition amount_resize :: "amount_t \<Rightarrow> 32 word \<Rightarrow> error + amount_t" where
  "amount_resize a p =
     (if \<not> p < 256 then Inl AssertionFailed
      else case quantity a of
        None \<Rightarrow> Inr a
      | Some q0 \<Rightarrow>
          if p = ucast (prec q0) then Inr a
          else
            let q = dup_cell q0;
                v = (if p < ucast (prec q)
                     then mpz_tdiv_q (val q) (mpz_ui_pow_ui 10 (unat (prec q) - unat p))
                     else val q * mpz_ui_pow_ui 10 (unat p - unat (prec q)))
            in Inr (a\<lparr>quantity := Some (q\<lparr>val := v, prec := ucast p\<rparr>)\<rparr>))"

section \<open>Arithmetic\<close>

text \<open>
  \<^verbatim>\<open>operator+=\<close> and \<^verbatim>\<open>operator-=\<close>. The two differ in the GMP call
  (\<^verbatim>\<open>mpz_add\<close>, \<^verbatim>\<open>mpz_sub\<close>) and in what a receiver without a quantity becomes.
\<close>

definition combine ::
  "(int \<Rightarrow> int \<Rightarrow> int) \<Rightarrow> amount_t \<Rightarrow> bigint_t \<Rightarrow> amount_t \<Rightarrow> bigint_t \<Rightarrow> error + amount_t" where
  "combine f a q amt aq =
     (if commodity a \<noteq> commodity amt then Inl CommodityMismatch
      else if prec q = prec aq then
        Inr (a\<lparr>quantity := Some (q\<lparr>val := f (val q) (val aq)\<rparr>)\<rparr>)
      else if prec q < prec aq then
        (case amount_resize a (ucast (prec aq)) of
           Inl e \<Rightarrow> Inl e
         | Inr a' \<Rightarrow>
             Inr (a'\<lparr>quantity := map_option (\<lambda>q'. q'\<lparr>val := f (val q') (val aq)\<rparr>) (quantity a')\<rparr>))
      else
        (case amount_resize (amount_copy_ctor amt) (ucast (prec q)) of
           Inl e \<Rightarrow> Inl e
         | Inr temp \<Rightarrow>
             (case quantity temp of
                None \<Rightarrow> Inl NullPointer
              | Some tq \<Rightarrow> Inr (a\<lparr>quantity := Some (q\<lparr>val := f (val q) (val tq)\<rparr>)\<rparr>))))"

definition add_assign :: "amount_t \<Rightarrow> amount_t \<Rightarrow> error + amount_t" where
  "add_assign a amt =
     (case quantity amt of
        None \<Rightarrow> Inr a
      | Some aq \<Rightarrow>
          (case quantity a of
             None \<Rightarrow> amount_copy a amt
           | Some q0 \<Rightarrow>
               let a = amount_dup a; q = dup_cell q0
               in combine (+) a q amt aq))"

definition sub_assign :: "amount_t \<Rightarrow> amount_t \<Rightarrow> error + amount_t" where
  "sub_assign a amt =
     (case quantity amt of
        None \<Rightarrow> Inr a
      | Some aq \<Rightarrow>
          (case quantity a of
             None \<Rightarrow>
               Inr \<lparr>quantity = Some ((copy_bigint aq)\<lparr>val := - val aq\<rparr>),
                    commodity = commodity amt\<rparr>
           | Some q0 \<Rightarrow>
               let a = amount_dup a; q = dup_cell q0
               in combine (-) a q amt aq))"

text \<open>
  The tail shared by \<^verbatim>\<open>operator*=\<close> and \<^verbatim>\<open>operator/=\<close>: a scale above the
  commodity's precision plus six is rounded down to it. The comparison and the sum
  \<^verbatim>\<open>commodity->precision + 6U\<close> are in \<^verbatim>\<open>unsigned int\<close>.
\<close>

definition round_to_headroom :: "registry \<Rightarrow> amount_t \<Rightarrow> bigint_t \<Rightarrow> error + amount_t" where
  "round_to_headroom st a q =
     (case deref st (commodity a) of
        Inl e \<Rightarrow> Inl e
      | Inr c \<Rightarrow>
          if ucast (prec q) > precision c + 6 then
            (case mpz_round (val q) (uint (prec q)) (uint (precision c + 6)) of
               Inl e \<Rightarrow> Inl e
             | Inr v \<Rightarrow> Inr (a\<lparr>quantity := Some (q\<lparr>val := v, prec := ucast (precision c + 6)\<rparr>)\<rparr>))
          else Inr (a\<lparr>quantity := Some q\<rparr>))"

definition mul_assign :: "registry \<Rightarrow> amount_t \<Rightarrow> amount_t \<Rightarrow> error + amount_t" where
  "mul_assign st a amt =
     (case (quantity amt, quantity a) of
        (Some aq, Some q0) \<Rightarrow>
          let q = dup_cell q0;
              q = q\<lparr>val := val q * val aq\<rparr>;
              q = q\<lparr>prec := prec q + prec aq\<rparr>
          in round_to_headroom st a q
      | _ \<Rightarrow> Inr a)"

text \<open>
  The argument \<^verbatim>\<open>const amount_t& amt\<close> of \<^verbatim>\<open>operator/=\<close>: the receiver
  itself, as in \<^verbatim>\<open>a /= a\<close>, or another object. Another object shares the
  receiver's cell only while the cell counts more than one reference, and then
  \<^verbatim>\<open>_dup\<close> gives the receiver a cell of its own before anything is written.
  Among the compound assignments \<^verbatim>\<open>/=\<close> alone writes the receiver's cell and
  reads the argument's afterwards, so that it alone gives another result when the
  argument is the receiver; for the others the argument is taken by value.
\<close>

datatype operand = This | Other amount_t

definition operand_amount :: "amount_t \<Rightarrow> operand \<Rightarrow> amount_t" where
  "operand_amount a amt = (case amt of This \<Rightarrow> a | Other b \<Rightarrow> b)"

text \<open>
  \<^verbatim>\<open>operator/=\<close>. When the argument is the receiver, \<^verbatim>\<open>amt.quantity\<close> is
  the receiver's cell at each read: after \<^verbatim>\<open>_dup\<close> for the scale, and after the
  multiplication for the divisor.
\<close>

definition div_assign :: "registry \<Rightarrow> amount_t \<Rightarrow> operand \<Rightarrow> error + amount_t" where
  "div_assign st a amt =
     (case quantity a of
        None \<Rightarrow> Inr a
      | Some q0 \<Rightarrow>
          (case quantity (operand_amount a amt) of
             None \<Rightarrow> Inl DivideByZero
           | Some aq0 \<Rightarrow>
               let q = dup_cell q0;
                   aq = (case amt of This \<Rightarrow> q | Other b \<Rightarrow> aq0);
                   divisor = mpz_ui_pow_ui 10 (unat (prec aq) + 6);
                   q = q\<lparr>val := val q * divisor\<rparr>;
                   aq = (case amt of This \<Rightarrow> q | Other b \<Rightarrow> aq)
               in if val aq = 0 then Inl GmpDivisionByZero
                  else
                    let q = q\<lparr>val := mpz_tdiv_q (val q) (val aq)\<rparr>;
                        q = q\<lparr>prec := prec q + 6\<rparr>
                    in round_to_headroom st a q))"

text \<open>
  Modelled from the spec: the binary operator \<^verbatim>\<open>*\<close> is defined in
  \<^verbatim>\<open>amount.h\<close>, which is not among the sources. It applies \<^verbatim>\<open>*=\<close> to a
  copy of its left operand and returns the copy.
\<close>

definition amount_times :: "registry \<Rightarrow> amount_t \<Rightarrow> amount_t \<Rightarrow> error + amount_t" where
  "amount_times st a b = mul_assign st (amount_copy_ctor a) b"

text \<open>
  Modelled from the spec: the binary operator \<^verbatim>\<open>/\<close> is defined in
  \<^verbatim>\<open>amount.h\<close>, which is not among the sources. It applies \<^verbatim>\<open>/=\<close> to a
  copy of its left operand and returns the copy; the copy is an object of its own,
  so the divisor is never the receiver.
\<close>

definition amount_divide :: "registry \<Rightarrow> amount_t \<Rightarrow> amount_t \<Rightarrow> error + amount_t" where
  "amount_divide st a b = div_assign st (amount_copy_ctor a) (Other b)"

section \<open>Comparison\<close>

datatype cmp_op = Lt | Le | Gt | Ge | Eq

fun cmp_holds :: "cmp_op \<Rightarrow> int \<Rightarrow> int \<Rightarrow> bool" where
  "cmp_holds Lt x y = (x < y)"
| "cmp_holds Le x y = (x \<le> y)"
| "cmp_holds Gt x y = (x > y)"
| "cmp_holds Ge x y = (x \<ge> y)"
| "cmp_holds Eq x y = (x = y)"

definition mpz_sgn :: "int \<Rightarrow> int" where
  "mpz_sgn x = (if x < 0 then - 1 else if x = 0 then 0 else 1)"

definition mpz_cmp :: "int \<Rightarrow> int \<Rightarrow> int" where
  "mpz_cmp x y = (if x < y then - 1 else if x = y then 0 else 1)"

text \<open>
  \<^verbatim>\<open>AMOUNT_CMP_INT(OP)\<close> at \<^verbatim>\<open>num == 0\<close>, the only argument with which the
  comparisons between amounts call it.
\<close>

definition amount_cmp_zero :: "cmp_op \<Rightarrow> amount_t \<Rightarrow> bool" where
  "amount_cmp_zero opr a =
     (case quantity a of
        Some q \<Rightarrow> cmp_holds opr (mpz_sgn (val q)) 0
      | None \<Rightarrow> False)"

text \<open>
  \<^verbatim>\<open>AMOUNT_CMP_AMOUNT(OP)\<close>. The first two returns are the same for every
  \<^verbatim>\<open>OP\<close>: \<^verbatim>\<open>amt > 0\<close> and \<^verbatim>\<open>*this < 0\<close>.
\<close>

definition amount_cmp_amount ::
  "cmp_op \<Rightarrow> registry \<Rightarrow> amount_t \<Rightarrow> amount_t \<Rightarrow> error + bool" where
  "amount_cmp_amount opr st a amt =
     (case quantity a of
        None \<Rightarrow> Inr (amount_cmp_zero Gt amt)
      | Some q \<Rightarrow>
          (case quantity amt of
             None \<Rightarrow> Inr (amount_cmp_zero Lt a)
           | Some aq \<Rightarrow>
               if commodity a \<noteq> commodity amt \<and>
                  commodity a \<noteq> null_commodity st \<and>
                  commodity amt \<noteq> null_commodity st
               then Inr False
               else if prec q = prec aq then
                 Inr (cmp_holds opr (mpz_cmp (val q) (val aq)) 0)
               else if prec q < prec aq then
                 (case amount_resize (amount_copy_ctor a) (ucast (prec aq)) of
                    Inl e \<Rightarrow> Inl e
                  | Inr temp \<Rightarrow>
                      (case quantity temp of
                         None \<Rightarrow> Inl NullPointer
                       | Some tq \<Rightarrow> Inr (cmp_holds opr (mpz_cmp (val tq) (val aq)) 0)))
               else
                 (case amount_resize (amount_copy_ctor amt) (ucast (prec q)) of
                    Inl e \<Rightarrow> Inl e
                  | Inr temp \<Rightarrow>
                      (case quantity temp of
                         None \<Rightarrow> Inl NullPointer
                       | Some tq \<Rightarrow> Inr (cmp_holds opr (mpz_cmp (val q) (val tq)) 0)))))"

text \<open>
  \<^verbatim>\<open>valid()\<close>: a quantity needs a commodity and a live cell, and a commodity
  needs a quantity.
\<close>

definition valid :: "amount_t \<Rightarrow> bool" where
  "valid a =
     (case quantity a of
        Some q \<Rightarrow>
          if commodity a = None then False
          else if ref q = 0 then False
          else True
      | None \<Rightarrow> if commodity a \<noteq> None then False else True)"

section \<open>The commodity registry\<close>

definition isspace :: "char \<Rightarrow> bool" where
  "isspace c = (c \<in> {CHR '' '', CHR 0x09, CHR 0x0A, CHR 0x0B, CHR 0x0C, CHR 0x0D})"

definition isdigit :: "char \<Rightarrow> bool" where
  "isdigit c = (c \<in> set ''0123456789'')"

text \<open>
  Modelled from the spec: the constructor of \<^verbatim>\<open>commodity_t\<close> is defined in
  \<^verbatim>\<open>amount.h\<close>, which is not among the sources. A new commodity has the default
  style: precision 0 and no flag. Its symbol is to be quoted when it could not be read
  back without quotes, that is when it holds a character that ends an unquoted symbol
  in the grammar: white space, a digit, a sign or a dot.
\<close>

definition new_commodity :: "string \<Rightarrow> commodity_t" where
  "new_commodity smb =
     \<lparr>symbol = smb,
      quote = list_ex (\<lambda>c. isspace c \<or> isdigit c \<or> c = CHR ''-'' \<or> c = CHR ''.'') smb,
      precision = 0,
      flags = {}\<rparr>"

text \<open>
  Modelled from the spec: \<^verbatim>\<open>add_commodity\<close> is defined in \<^verbatim>\<open>amount.h\<close>,
  which is not among the sources. It enters the commodity in the interning map under
  its symbol.
\<close>

definition add_commodity :: "registry \<Rightarrow> cptr \<Rightarrow> registry" where
  "add_commodity st p = st\<lparr>commodities := (commodities st)(symbol (heap st ! p) \<mapsto> p)\<rparr>"

text \<open>\<^verbatim>\<open>commodity_t::find_commodity(symbol, auto_create)\<close>.\<close>

definition find_commodity :: "registry \<Rightarrow> string \<Rightarrow> bool \<Rightarrow> registry \<times> cptr option" where
  "find_commodity st smb auto_create =
     (case commodities st smb of
        Some p \<Rightarrow> (st, Some p)
      | None \<Rightarrow>
          if auto_create then
            let p = length (heap st);
                st = st\<lparr>heap := heap st @ [new_commodity smb]\<rparr>
            in (add_commodity st p, Some p)
          else (st, None))"

text \<open>
  The statics before \<^verbatim>\<open>initialize_amounts\<close> has run, and
  \<^verbatim>\<open>initialize_amounts\<close> itself.
\<close>

definition static_init :: registry where
  "static_init =
     \<lparr>heap = [], commodities = Map.empty, null_commodity = None, true_value = new_bigint\<rparr>"

definition initialize_amounts :: "registry \<Rightarrow> registry" where
  "initialize_amounts st =
     (let st = st\<lparr>true_value := (true_value st)\<lparr>val := 1\<rparr>\<rparr>;
          (st, p) = find_commodity st [] True
      in st\<lparr>null_commodity := p\<rparr>)"

section \<open>Parsing\<close>

text \<open>
  A \<^verbatim>\<open>std::istream\<close>: the characters not yet read and the end-of-file bit, which
  is set by the first read or peek that finds nothing left. \<^verbatim>\<open>peek\<close> then returns
  \<^verbatim>\<open>EOF\<close>, which is the byte \<open>0xFF\<close> once stored in a \<^verbatim>\<open>char\<close>.
\<close>

record istream =
  rest :: string
  eof :: bool

definition peek :: "istream \<Rightarrow> char \<times> istream" where
  "peek s = (case rest s of [] \<Rightarrow> (CHR 0xFF, s\<lparr>eof := True\<rparr>) | c # _ \<Rightarrow> (c, s))"

definition get :: "char \<Rightarrow> istream \<Rightarrow> char \<times> istream" where
  "get c0 s = (case rest s of [] \<Rightarrow> (c0, s\<lparr>eof := True\<rparr>) | c # cs \<Rightarrow> (c, s\<lparr>rest := cs\<rparr>))"

text \<open>
  Modelled from the spec: \<^verbatim>\<open>peek_next_nonws\<close> is defined in \<^verbatim>\<open>util.h\<close>,
  which is not among the sources. It skips white space and returns the next character
  without reading it.
\<close>

definition peek_next_nonws :: "istream \<Rightarrow> char \<times> istream" where
  "peek_next_nonws s = peek (s\<lparr>rest := dropWhile isspace (rest s)\<rparr>)"

text \<open>
  Modelled from the spec: the macro \<^verbatim>\<open>READ_INTO(in, buf, size, c, cond)\<close> is
  defined in \<^verbatim>\<open>util.h\<close>, which is not among the sources. It reads into
  \<^verbatim>\<open>buf\<close> the longest run of characters that satisfy \<^verbatim>\<open>cond\<close>, as the
  grammar of the specification has the tokens, and leaves in \<^verbatim>\<open>c\<close> the character
  that follows, not read. Tokens are taken to fit the buffer of 256 bytes.
\<close>

definition READ_INTO :: "(char \<Rightarrow> bool) \<Rightarrow> istream \<Rightarrow> string \<times> char \<times> istream" where
  "READ_INTO cond s =
     (let (c, s') = peek (s\<lparr>rest := dropWhile cond (rest s)\<rparr>)
      in (takeWhile cond (rest s), c, s'))"

definition parse_quantity :: "istream \<Rightarrow> string \<times> istream" where
  "parse_quantity s =
     (let (c, s) = peek_next_nonws s;
          (buf, c, s) =
             READ_INTO (\<lambda>c. isdigit c \<or> c = CHR ''-'' \<or> c = CHR ''.'' \<or> c = CHR '','') s
      in (buf, s))"

definition parse_commodity :: "istream \<Rightarrow> error + string \<times> istream" where
  "parse_commodity s =
     (let (c, s) = peek_next_nonws s in
      if c = CHR 0x22 then
        let (c, s) = get c s;
            (buf, c, s) = READ_INTO (\<lambda>c. c \<noteq> CHR 0x22) s
        in if c = CHR 0x22 then (let (c, s) = get c s in Inr (buf, s))
           else Inl UnterminatedQuote
      else
        let (buf, c, s) =
              READ_INTO (\<lambda>c. \<not> isspace c \<and> \<not> isdigit c \<and> c \<noteq> CHR ''-'' \<and> c \<noteq> CHR ''.'') s
        in Inr (buf, s))"

text \<open>\<^verbatim>\<open>std::string::rfind(c)\<close>: the last position of \<open>c\<close>, \<open>None\<close> for \<^verbatim>\<open>npos\<close>.\<close>

fun rfind_from :: "char \<Rightarrow> string \<Rightarrow> nat \<Rightarrow> nat option \<Rightarrow> nat option" where
  "rfind_from c [] i found = found"
| "rfind_from c (x # xs) i found = rfind_from c xs (Suc i) (if x = c then Some i else found)"

definition rfind :: "string \<Rightarrow> char \<Rightarrow> nat option" where
  "rfind s c = rfind_from c s 0 None"

text \<open>
  The loop of \<^verbatim>\<open>parse\<close> that removes the separators: a comma or a period is
  skipped and the character after it is copied whatever it is. After a separator at
  the very end that character is the terminator, and the loop reads on behind it.
\<close>

fun strip_separators :: "string \<Rightarrow> error + string" where
  "strip_separators [] = Inr []"
| "strip_separators (p # ps) =
     (if p = CHR '','' \<or> p = CHR ''.'' then
        (case ps of
           [] \<Rightarrow> Inl ReadPastEnd
         | x # xs \<Rightarrow> (case strip_separators xs of Inl e \<Rightarrow> Inl e | Inr t \<Rightarrow> Inr (x # t)))
      else (case strip_separators ps of Inl e \<Rightarrow> Inl e | Inr t \<Rightarrow> Inr (p # t)))"

text \<open>
  \<^verbatim>\<open>mpz_set_str(rop, str, 10)\<close> on a string without white space: an optional
  minus sign and at least one digit, nothing else; on any other string GMP reports
  failure and leaves \<^verbatim>\<open>rop\<close> as it was. \<^verbatim>\<open>parse\<close> ignores the report.
\<close>

definition digit_value :: "char \<Rightarrow> int" where
  "digit_value c = int (of_char c) - 48"

definition mpz_set_str :: "int \<Rightarrow> string \<Rightarrow> int" where
  "mpz_set_str rop str =
     (let negative = (str \<noteq> [] \<and> hd str = CHR ''-'');
          ds = (if negative then tl str else str)
      in if ds \<noteq> [] \<and> list_all isdigit ds then
           let n = foldl (\<lambda>n c. 10 * n + digit_value c) 0 ds
           in if negative then - n else n
         else rop)"

text \<open>
  \<^verbatim>\<open>amount_t::parse(std::istream& in)\<close>. An exception leaves the receiver as it
  was when it was thrown, and that is what \<open>Inl\<close> carries with the error.
\<close>

definition parse_tokens :: "istream \<Rightarrow> error + string \<times> string \<times> style set \<times> istream" where
  "parse_tokens s0 =
     (let (c, s) = peek_next_nonws s0 in
      if isdigit c \<or> c = CHR ''.'' \<or> c = CHR ''-'' then
        let (quant, s) = parse_quantity s in
        if \<not> eof s \<and> fst (peek s) \<noteq> CHR 0x0A then
          let n = fst (peek s);
              flags = (if isspace n then {SEPARATED} else {})
          in (case parse_commodity s of
                Inl e \<Rightarrow> Inl e
              | Inr (smb, s) \<Rightarrow> Inr (smb, quant, flags \<union> {SUFFIXED}, s))
        else Inr ([], quant, {}, s)
      else
        (case parse_commodity s of
           Inl e \<Rightarrow> Inl e
         | Inr (smb, s) \<Rightarrow>
             let (n, s) = peek s;
                 flags = (if isspace n then {SEPARATED} else {});
                 (quant, s) = parse_quantity s
             in Inr (smb, quant, flags, s)))"

definition parse ::
  "registry \<Rightarrow> amount_t \<Rightarrow> istream \<Rightarrow> error \<times> amount_t + registry \<times> amount_t \<times> istream" where
  "parse st a0 s0 =
     (let a = amount_init a0;
          q = (case quantity a of Some q \<Rightarrow> q | None \<Rightarrow> new_bigint)
      in case parse_tokens s0 of
        Inl e \<Rightarrow> Inl (e, a)
      | Inr (smb, quant, flags0, s) \<Rightarrow>
          let last_comma = rfind quant (CHR '','');
              last_period = rfind quant (CHR ''.'');
              (flags1, p) =
                 (case (last_comma, last_period) of
                    (Some lc, Some lp) \<Rightarrow>
                      if lc > lp
                      then (flags0 \<union> {THOUSANDS} \<union> {EUROPEAN}, length quant - lc - 1)
                      else (flags0 \<union> {THOUSANDS}, length quant - lp - 1)
                  | (Some lc, None) \<Rightarrow> (flags0 \<union> {EUROPEAN}, length quant - lc - 1)
                  | (None, Some lp) \<Rightarrow> (flags0, length quant - lp - 1)
                  | (None, None) \<Rightarrow> (flags0, 0));
              q = q\<lparr>prec := of_nat p\<rparr>;
              (st, cp) = find_commodity st smb True;
              a = a\<lparr>quantity := Some q, commodity := cp\<rparr>
          in case (cp, deref st cp) of
            (Some cp, Inr c) \<Rightarrow>
              let c = c\<lparr>flags := flags c \<union> flags1\<rparr>;
                  c = (if ucast (prec q) > precision c then c\<lparr>precision := ucast (prec q)\<rparr> else c);
                  st = st\<lparr>heap := (heap st)[cp := c]\<rparr>
              in if last_comma = None \<and> last_period = None then
                   Inr (st, a\<lparr>quantity := Some (q\<lparr>val := mpz_set_str (val q) quant\<rparr>)\<rparr>, s)
                 else
                   (case strip_separators quant of
                      Inl e \<Rightarrow> Inl (e, a)
                    | Inr buf \<Rightarrow>
                        Inr (st, a\<lparr>quantity := Some (q\<lparr>val := mpz_set_str (val q) buf\<rparr>)\<rparr>, s))
          | _ \<Rightarrow> Inl (NullPointer, a))"

text \<open>\<^verbatim>\<open>amount_t::parse(const std::string& str)\<close>.\<close>

definition parse_string ::
  "registry \<Rightarrow> amount_t \<Rightarrow> string \<Rightarrow> error \<times> amount_t + registry \<times> amount_t \<times> istream" where
  "parse_string st a str = parse st a \<lparr>rest = str, eof = False\<rparr>"

section \<open>Formatting\<close>

text \<open>
  \<^verbatim>\<open>mpz_get_str(NULL, 10, x)\<close>: the decimal digits of \<open>x\<close>, after a minus sign
  when it is negative.
\<close>

fun digits :: "nat \<Rightarrow> string" where
  "digits n =
     (if n < 10 then [''0123456789'' ! n]
      else digits (n div 10) @ [''0123456789'' ! (n mod 10)])"

declare digits.simps [simp del]

definition mpz_get_str :: "int \<Rightarrow> string" where
  "mpz_get_str x = (if x < 0 then CHR ''-'' # digits (nat (- x)) else digits (nat x))"

text \<open>
  What \<^verbatim>\<open>out.width(w); out.fill('0'); out << s\<close> writes: \<open>s\<close> after as many
  zeros as it is shorter than \<open>w\<close>. The width holds for that one output only.
\<close>

definition zero_padded :: "nat \<Rightarrow> string \<Rightarrow> string" where
  "zero_padded w s = replicate (w - length s) (CHR ''0'') @ s"

text \<open>
  The loop of \<^verbatim>\<open>operator<<\<close> that cuts the integer part into groups of three
  digits, lowest first, and the loop that prints them, highest first.
\<close>

function group_loop :: "int \<Rightarrow> nat \<Rightarrow> string list \<Rightarrow> string list" where
  "group_loop quo powers strs =
     (if powers > 0 then
        (if mpz_sgn (mpz_tdiv_q quo (mpz_ui_pow_ui 10 powers)) = 0 then strs
         else group_loop quo (powers + 3)
                (strs @ [mpz_get_str
                           (mpz_tdiv_r (mpz_tdiv_q quo (mpz_ui_pow_ui 10 powers)) 1000)]))
      else group_loop quo (powers + 3) (strs @ [mpz_get_str (mpz_tdiv_r quo 1000)]))"
  by pat_completeness auto

text \<open>
  The loop ends: it goes on only while \<open>10 ^ powers\<close> does not exceed the integer
  part, and \<open>powers\<close> grows.
\<close>

lemma tdiv_q_nonzero: "mpz_sgn (mpz_tdiv_q q d) \<noteq> 0 \<Longrightarrow> \<bar>d\<bar> \<le> \<bar>q\<bar>"
proof (rule ccontr)
  assume nz: "mpz_sgn (mpz_tdiv_q q d) \<noteq> 0" and "\<not> \<bar>d\<bar> \<le> \<bar>q\<bar>"
  then have "\<bar>q\<bar> div \<bar>d\<bar> = 0" by (simp add: div_pos_pos_trivial)
  then have "mpz_tdiv_q q d = 0" by (simp add: mpz_tdiv_q_def)
  with nz show False by (simp add: mpz_sgn_def)
qed

lemma exponent_below_power: "int p < 10 ^ p"
proof -
  have "p < 10 ^ p" by (rule power_gt_expt) simp
  then have "int p < int (10 ^ p)" by (simp only: of_nat_less_iff)
  then show ?thesis by simp
qed

lemma group_loop_bound:
  assumes "mpz_sgn (mpz_tdiv_q q (mpz_ui_pow_ui 10 p)) \<noteq> 0"
  shows "p < nat \<bar>q\<bar>"
proof -
  have "\<bar>mpz_ui_pow_ui 10 p\<bar> \<le> \<bar>q\<bar>" using assms by (rule tdiv_q_nonzero)
  then have "10 ^ p \<le> \<bar>q\<bar>" by (simp add: mpz_ui_pow_ui_def)
  with exponent_below_power [of p] show ?thesis by linarith
qed

termination group_loop
proof (relation "measure (\<lambda>(q, p, s). if p = 0 then nat \<bar>q\<bar> + 2 else nat \<bar>q\<bar> + 1 - p)")
  show "wf (measure (\<lambda>(q, p, s). if p = 0 then nat \<bar>q\<bar> + 2 else nat \<bar>q\<bar> + 1 - p))"
    by simp
next
  fix quo :: int and powers :: nat and strs :: "string list"
  assume "0 < powers" and "mpz_sgn (mpz_tdiv_q quo (mpz_ui_pow_ui 10 powers)) \<noteq> 0"
  then have "powers < nat \<bar>quo\<bar>" using group_loop_bound by blast
  then show "((quo, powers + 3,
               strs @ [mpz_get_str (mpz_tdiv_r (mpz_tdiv_q quo (mpz_ui_pow_ui 10 powers)) 1000)]),
              quo, powers, strs)
       \<in> measure (\<lambda>(q, p, s). if p = 0 then nat \<bar>q\<bar> + 2 else nat \<bar>q\<bar> + 1 - p)"
    by auto
next
  fix quo :: int and powers :: nat and strs :: "string list"
  assume "\<not> 0 < powers"
  then show "((quo, powers + 3, strs @ [mpz_get_str (mpz_tdiv_r quo 1000)]), quo, powers, strs)
       \<in> measure (\<lambda>(q, p, s). if p = 0 then nat \<bar>q\<bar> + 2 else nat \<bar>q\<bar> + 1 - p)"
    by auto
qed

declare group_loop.simps [simp del]

fun print_groups :: "bool \<Rightarrow> bool \<Rightarrow> string list \<Rightarrow> string" where
  "print_groups european printed [] = []"
| "print_groups european printed (i # strs) =
     (if printed then (if european then CHR ''.'' else CHR '','') # zero_padded 3 i else i)
     @ print_groups european True strs"

text \<open>
  \<^verbatim>\<open>operator<<(std::ostream&, const amount_t&)\<close>: the string written to the
  stream. The first step splits the magnitude, brought to the commodity's precision,
  into the integer part and the fraction.
\<close>

definition split_at_precision :: "commodity_t \<Rightarrow> bigint_t \<Rightarrow> error + int \<times> int" where
  "split_at_precision c q =
     (if precision c < ucast (prec q) then
        (case mpz_round (val q) (uint (prec q)) (uint (precision c)) of
           Inl e \<Rightarrow> Inl e
         | Inr rquotient \<Rightarrow>
             let divisor = mpz_ui_pow_ui 10 (unat (precision c))
             in Inr (mpz_tdiv_q rquotient divisor, mpz_tdiv_r rquotient divisor))
      else if precision c > ucast (prec q) then
        let divisor = mpz_ui_pow_ui 10 (unat (precision c) - unat (prec q));
            rquotient = val q * divisor;
            divisor = mpz_ui_pow_ui 10 (unat (precision c))
        in Inr (mpz_tdiv_q rquotient divisor, mpz_tdiv_r rquotient divisor)
      else if prec q \<noteq> 0 then
        let divisor = mpz_ui_pow_ui 10 (unat (prec q))
        in Inr (mpz_tdiv_q (val q) divisor, mpz_tdiv_r (val q) divisor)
      else Inr (val q, 0))"

definition symbol_text :: "commodity_t \<Rightarrow> string" where
  "symbol_text c = (if quote c then [CHR 0x22] @ symbol c @ [CHR 0x22] else symbol c)"

definition format_amount :: "registry \<Rightarrow> amount_t \<Rightarrow> error + string" where
  "format_amount st amt =
     (case quantity amt of
        None \<Rightarrow> Inr []
      | Some q \<Rightarrow>
          (case deref st (commodity amt) of
             Inl e \<Rightarrow> Inl e
           | Inr c \<Rightarrow>
               (case split_at_precision c q of
                  Inl e \<Rightarrow> Inl e
                | Inr (quo0, rem0) \<Rightarrow>
                    let negative = (mpz_sgn quo0 < 0 \<or> mpz_sgn rem0 < 0);
                        quo = (if negative then \<bar>quo0\<bar> else quo0);
                        remainder = (if negative then \<bar>rem0\<bar> else rem0);
                        rquotient = remainder;
                        prefix =
                          (if SUFFIXED \<notin> flags c then
                             symbol_text c @ (if SEPARATED \<in> flags c then '' '' else [])
                           else []);
                        sign = (if negative then ''-'' else []);
                        whole =
                          (if mpz_sgn quo = 0 then ''0''
                           else if THOUSANDS \<notin> flags c then mpz_get_str quo
                           else print_groups (EUROPEAN \<in> flags c) False
                                  (rev (group_loop quo 0 [])));
                        fraction =
                          (if precision c \<noteq> 0 then
                             (if EUROPEAN \<in> flags c then CHR '','' else CHR ''.'')
                             # zero_padded (unat (precision c)) (mpz_get_str rquotient)
                           else []);
                        suffix =
                          (if SUFFIXED \<in> flags c then
                             (if SEPARATED \<in> flags c then '' '' else []) @ symbol_text c
                           else [])
                    in Inr (prefix @ sign @ whole @ fraction @ suffix))))"

section \<open>Observations and sample data\<close>

text \<open>The magnitude and the scale of an amount, when it has a quantity.\<close>

definition magnitude :: "amount_t \<Rightarrow> int option" where
  "magnitude a = map_option val (quantity a)"

definition scale :: "amount_t \<Rightarrow> nat option" where
  "scale a = map_option (\<lambda>q. unat (prec q)) (quantity a)"

text \<open>
  An amount that alone holds its cell, as \<^verbatim>\<open>parse\<close> and the constructors from
  integers leave it.
\<close>

definition sample_amount :: "int \<Rightarrow> 16 word \<Rightarrow> cptr \<Rightarrow> amount_t" where
  "sample_amount v p c =
     \<lparr>quantity = Some (new_bigint\<lparr>val := v, prec := p\<rparr>), commodity = Some c\<rparr>"

text \<open>
  The registry after \<^verbatim>\<open>initialize_amounts\<close> and the parse of an amount in
  dollars with two decimals, and the same with a second commodity.
\<close>

definition dollar_registry :: registry where
  "dollar_registry =
     \<lparr>heap = [new_commodity [], (new_commodity ''$'')\<lparr>precision := 2\<rparr>],
      commodities = [[] \<mapsto> 0, ''$'' \<mapsto> 1],
      null_commodity = Some 0,
      true_value = new_bigint\<lparr>val := 1\<rparr>\<rparr>"

definition sample_registry :: registry where
  "sample_registry =
     \<lparr>heap = [new_commodity [], (new_commodity ''$'')\<lparr>precision := 2\<rparr>,
              (new_commodity ''EUR'')\<lparr>precision := 2\<rparr>],
      commodities = [[] \<mapsto> 0, ''$'' \<mapsto> 1, ''EUR'' \<mapsto> 2],
      null_commodity = Some 0,
      true_value = new_bigint\<lparr>val := 1\<rparr>\<rparr>"

text \<open>
  Scenario S3 of the specification: two strings parsed one after the other under a
  fresh registry, and the first amount divided by the second.
\<close>

definition divide_parsed :: "string \<Rightarrow> string \<Rightarrow> error + registry \<times> amount_t" where
  "divide_parsed s1 s2 =
     (case parse_string (initialize_amounts static_init) absent s1 of
        Inl (e, a) \<Rightarrow> Inl e
      | Inr (st, a, r1) \<Rightarrow>
          (case parse_string st absent s2 of
             Inl (e, b) \<Rightarrow> Inl e
           | Inr (st, b, r2) \<Rightarrow>
               (case amount_divide st a b of
                  Inl e \<Rightarrow> Inl e
                | Inr r \<Rightarrow> Inr (st, r))))"

section \<open>Properties\<close>

subsection \<open>Auxiliary facts\<close>

lemmas parse_defs =
  parse_string_def parse_def parse_tokens_def initialize_amounts_def static_init_def
  find_commodity_def add_commodity_def new_commodity_def absent_def amount_init_def
  peek_next_nonws_def peek_def get_def isspace_def isdigit_def parse_commodity_def
  parse_quantity_def READ_INTO_def rfind_def new_bigint_def deref_def mpz_set_str_def
  digit_value_def Let_def

lemmas format_defs =
  format_amount_def split_at_precision_def symbol_text_def deref_def mpz_round_def
  mpz_tdiv_q_def mpz_tdiv_r_def mpz_ui_pow_ui_def mpz_sgn_def mpz_get_str_def
  zero_padded_def digits.simps group_loop.simps new_commodity_def isspace_def isdigit_def
  Let_def

text \<open>
  What \<^verbatim>\<open>mpz_round\<close> computes, in terms of the quotient \<open>q\<close> and the remainder
  \<open>r\<close> of the division towards zero and of the half \<open>h\<close> of the divisor: the
  quotient moves up from \<open>r = h\<close> on, and down only below \<open>r = - h\<close>.
\<close>

lemma tdiv_q_mult: "0 < d \<Longrightarrow> mpz_tdiv_q (n * d) d = n"
  by (simp add: mpz_tdiv_q_def sgn_mult abs_mult mult_sgn_abs)

lemma tdiv_q_r: "v - mpz_tdiv_r v d = mpz_tdiv_q v d * d"
  by (simp add: mpz_tdiv_r_def)

lemma half_of_power: "0 < k \<Longrightarrow> (10 :: int) ^ k div 10 * 5 = 5 * 10 ^ (k - 1)"
  by (cases k) simp_all

lemma mpz_round_cases:
  assumes "rp < vp"
  shows "mpz_round v vp rp =
           Inr (let d = 10 ^ nat (vp - rp);
                    q = mpz_tdiv_q v d;
                    r = mpz_tdiv_r v d;
                    h = 5 * 10 ^ (nat (vp - rp) - 1)
                in if r < - h then q - 1 else if h \<le> r then q + 1 else q)"
proof -
  define k where "k = nat (vp - rp)"
  define d :: int where "d = 10 ^ k"
  define q where "q = mpz_tdiv_q v d"
  define r where "r = mpz_tdiv_r v d"
  define h :: int where "h = 5 * 10 ^ (k - 1)"
  have k: "0 < k" using assms by (simp add: k_def)
  have d: "0 < d" by (simp add: d_def)
  have h: "0 < h" by (simp add: h_def)
  have half: "d div 10 * 5 = h" using k by (simp add: d_def h_def half_of_power)
  have vr: "v - r = q * d" by (simp add: q_def r_def tdiv_q_r)
  have down: "mpz_tdiv_q (v + (0 - (d + r))) d = q - 1"
  proof -
    have "v + (0 - (d + r)) = (q - 1) * d" using vr by (simp add: algebra_simps)
    then show ?thesis using d by (simp only: tdiv_q_mult)
  qed
  have up: "mpz_tdiv_q (v + (d - r)) d = q + 1"
  proof -
    have "v + (d - r) = (q + 1) * d" using vr by (simp add: algebra_simps)
    then show ?thesis using d by (simp only: tdiv_q_mult)
  qed
  have same: "mpz_tdiv_q (v - r) d = q"
    using vr d by (simp only: tdiv_q_mult)
  show ?thesis
    using assms h down up same
    unfolding mpz_round_def Let_def mpz_ui_pow_ui_def
      k_def [symmetric] d_def [symmetric] r_def [symmetric] q_def [symmetric] half
      h_def [symmetric]
    by auto
qed

text \<open>
  With an operand that has no quantity, the result of a comparison between amounts
  does not depend on the operator.
\<close>

lemma cmp_absent_left:
  "quantity a = None \<Longrightarrow> amount_cmp_amount opr st a y = Inr (amount_cmp_zero Gt y)"
  by (simp add: amount_cmp_amount_def)

lemma cmp_absent_right:
  "quantity a \<noteq> None \<Longrightarrow> quantity y = None \<Longrightarrow>
   amount_cmp_amount opr st a y = Inr (amount_cmp_zero Lt a)"
  by (auto simp: amount_cmp_amount_def)

text \<open>
  A parse into the absent amount that aborts while reading the tokens leaves a
  quantity and no commodity.
\<close>

lemma parse_abort_receiver:
  "parse_tokens s = Inl e \<Longrightarrow>
   parse st absent s = Inl (e, \<lparr>quantity = Some new_bigint, commodity = None\<rparr>)"
  by (simp add: parse_def amount_init_def absent_def)

text \<open>
  Assigning a nonzero integer to an amount that alone holds its cell changes the
  magnitude and the commodity, and nothing else of the cell.
\<close>

lemma assign_int_unshared:
  "quantity a = Some q \<Longrightarrow> ref q \<le> 1 \<Longrightarrow> v \<noteq> 0 \<Longrightarrow>
   assign_int st a v = \<lparr>quantity = Some (q\<lparr>val := sint v\<rparr>), commodity = null_commodity st\<rparr>"
  by (simp add: assign_int_def amount_init_def Let_def not_less [symmetric])

text \<open>Facts about the copy on write, the mismatch test and the division.\<close>

lemma dup_cell_fields: "val (dup_cell q) = val q" "prec (dup_cell q) = prec q"
  by (simp_all add: dup_cell_def copy_bigint_def)

lemma amount_resize_not_mismatch: "amount_resize a p \<noteq> Inl CommodityMismatch"
  by (simp add: amount_resize_def Let_def split: option.splits)

lemma combine_mismatch:
  "(combine f a q amt aq = Inl CommodityMismatch) = (commodity a \<noteq> commodity amt)"
  using amount_resize_not_mismatch
  by (auto simp: combine_def split: sum.splits option.splits)

lemma round_to_headroom_not_dbz: "round_to_headroom st a q \<noteq> Inl DivideByZero"
  by (auto simp: round_to_headroom_def deref_def mpz_round_def Let_def
           split: sum.splits option.splits if_splits)

lemma div_assign_absent: "quantity a = None \<Longrightarrow> div_assign st a amt = Inr a"
  by (simp add: div_assign_def)

lemma div_assign_dbz:
  "quantity a \<noteq> None \<Longrightarrow>
   (div_assign st a amt = Inl DivideByZero) = (quantity (operand_amount a amt) = None)"
  using round_to_headroom_not_dbz
  by (auto simp: div_assign_def Let_def split: option.splits)

lemma div_assign_value:
  assumes "quantity a = Some qa" and "quantity b = Some qb" and "val qb \<noteq> 0"
    and "deref st (commodity a) = Inr c"
  shows "\<exists>q'. div_assign st a (Other b) = Inr (a\<lparr>quantity := Some q'\<rparr>) \<and>
           (if ucast (prec qa + 6) > precision c + 6
            then mpz_round (mpz_tdiv_q (val qa * 10 ^ (unat (prec qb) + 6)) (val qb))
                   (uint (prec qa + 6)) (uint (precision c + 6)) = Inr (val q') \<and>
                 prec q' = ucast (precision c + 6)
            else val q' = mpz_tdiv_q (val qa * 10 ^ (unat (prec qb) + 6)) (val qb) \<and>
                 prec q' = prec qa + 6)"
proof (cases "(ucast (prec qa + 6) :: 32 word) > precision c + 6")
  case False
  let ?q = "(dup_cell qa)\<lparr>val := mpz_tdiv_q (val qa * 10 ^ (unat (prec qb) + 6)) (val qb),
                            prec := prec qa + 6\<rparr>"
  from assms False have "div_assign st a (Other b) = Inr (a\<lparr>quantity := Some ?q\<rparr>)"
    by (simp add: div_assign_def operand_amount_def round_to_headroom_def Let_def
          dup_cell_fields mpz_ui_pow_ui_def)
  with False show ?thesis by (intro exI [of _ ?q]) simp
next
  case True
  then have "uint (precision c + 6) < uint (ucast (prec qa + 6) :: 32 word)"
    by (simp add: word_less_def)
  also have "\<dots> = uint (prec qa + 6)"
    by (simp add: uint_up_ucast is_up)
  finally have lt: "uint (precision c + 6) < uint (prec qa + 6)" .
  obtain v where v: "mpz_round (mpz_tdiv_q (val qa * 10 ^ (unat (prec qb) + 6)) (val qb))
                   (uint (prec qa + 6)) (uint (precision c + 6)) = Inr v"
    using lt by (simp add: mpz_round_def Let_def)
  let ?q = "(dup_cell qa)\<lparr>val := v, prec := ucast (precision c + 6)\<rparr>"
  from assms True v have "div_assign st a (Other b) = Inr (a\<lparr>quantity := Some ?q\<rparr>)"
    by (simp add: div_assign_def operand_amount_def round_to_headroom_def Let_def
          dup_cell_fields mpz_ui_pow_ui_def)
  with True v show ?thesis by (intro exI [of _ ?q]) simp
qed

text \<open>
  An amount divided by itself in place: the cell is multiplied by the power of ten
  and then divided by what it has become, which leaves the magnitude 1 at the scale
  plus six. Three dollars become \<open>0.00000001\<close>.
\<close>

lemma div_assign_self_three_dollars:
  "div_assign sample_registry (sample_amount 300 2 1) This = Inr (sample_amount 1 8 1)"
  by (simp add: div_assign_def operand_amount_def round_to_headroom_def dup_cell_def
        sample_amount_def sample_registry_def deref_def new_bigint_def new_commodity_def
        mpz_tdiv_q_def mpz_ui_pow_ui_def Let_def)

lemma parse_ten_dollars:
  "parse_string (initialize_amounts static_init) absent ''$10.00'' =
     Inr (dollar_registry, sample_amount 1000 2 1, \<lparr>rest = [], eof = True\<rparr>)"
  by (simp add: parse_defs dollar_registry_def sample_amount_def)

lemma parse_three_dollars:
  "parse_string dollar_registry absent ''$3.00'' =
     Inr (dollar_registry, sample_amount 300 2 1, \<lparr>rest = [], eof = True\<rparr>)"
  by (simp add: parse_defs dollar_registry_def sample_amount_def)

lemma divide_ten_by_three:
  "amount_divide dollar_registry (sample_amount 1000 2 1) (sample_amount 300 2 1) =
     Inr (sample_amount 333333333 8 1)"
  by (simp add: amount_divide_def amount_copy_ctor_def div_assign_def operand_amount_def
        round_to_headroom_def dup_cell_def copy_bigint_def sample_amount_def
        dollar_registry_def deref_def new_bigint_def new_commodity_def mpz_tdiv_q_def
        mpz_ui_pow_ui_def Let_def)

lemma divide_parsed_dollars:
  "divide_parsed ''$10.00'' ''$3.00'' = Inr (dollar_registry, sample_amount 333333333 8 1)"
  by (simp only: divide_parsed_def parse_ten_dollars parse_three_dollars divide_ten_by_three
        sum.case prod.case)

lemma format_quotient:
  "format_amount dollar_registry (sample_amount 333333333 8 1) = Inr ''$3.33''"
  by (simp add: format_defs dollar_registry_def sample_amount_def new_bigint_def)

subsection \<open>Rounding at the half\<close>

text \<open>
  C1. The specification has the rounding routine round a remainder of exactly minus one
  half away from zero, as it does plus one half. Rounding \<open>-15\<close> from scale 1 to scale 0
  has quotient \<open>-1\<close> and remainder \<open>-5\<close>, exactly minus one half: the routine returns
  \<open>-1\<close>, towards zero, whereas \<open>15\<close> is rounded to \<open>2\<close>, away from zero.
\<close>

theorem mpz_round_minus_half_towards_zero:
  "mpz_round (-15) 1 0 = Inr (-1) \<and> mpz_round 15 1 0 = Inr 2"
  by (simp add: mpz_round_def mpz_tdiv_q_def mpz_tdiv_r_def mpz_ui_pow_ui_def Let_def)

subsection \<open>Division\<close>

text \<open>
  C2, as amended. For \<^verbatim>\<open>a /= b\<close>: when the dividend has no quantity the result
  is the dividend as it was and nothing is raised, whatever the divisor; when the
  dividend has a quantity, DivideByZero is raised exactly when the divisor has none;
  and when both have one, the divisor is another object than the dividend (as it
  always is in \<^verbatim>\<open>a / b\<close>, which divides a copy of \<open>a\<close>), the divisor's magnitude
  is not zero and the dividend's commodity is set, the result is the dividend with its
  magnitude multiplied by \<open>10 ^ (b.scale + 6)\<close> and divided, towards zero, by the
  divisor's magnitude, its scale incremented by 6 (in the 16 bits of the scale), and
  the whole rounded to the commodity's precision plus 6 when the scale exceeds it.
\<close>

theorem div_assign_amended:
  "(quantity a = None \<longrightarrow> div_assign st a amt = Inr a) \<and>
   (quantity a \<noteq> None \<longrightarrow>
      (div_assign st a amt = Inl DivideByZero) = (quantity (operand_amount a amt) = None)) \<and>
   (quantity a = Some qa \<and> quantity b = Some qb \<and> val qb \<noteq> 0 \<and>
    deref st (commodity a) = Inr c \<longrightarrow>
      (\<exists>q'. div_assign st a (Other b) = Inr (a\<lparr>quantity := Some q'\<rparr>) \<and>
           (if ucast (prec qa + 6) > precision c + 6
            then mpz_round (mpz_tdiv_q (val qa * 10 ^ (unat (prec qb) + 6)) (val qb))
                   (uint (prec qa + 6)) (uint (precision c + 6)) = Inr (val q') \<and>
                 prec q' = ucast (precision c + 6)
            else val q' = mpz_tdiv_q (val qa * 10 ^ (unat (prec qb) + 6)) (val qb) \<and>
                 prec q' = prec qa + 6)))"
  using div_assign_absent div_assign_dbz div_assign_value by blast

text \<open>
  The cases at concrete amounts: no dividend, no divisor, an amount divided by itself
  in place (nothing is raised), and ten dollars divided by three.
\<close>

theorem div_assign_amended_witness:
  "div_assign sample_registry absent (Other (sample_amount 300 2 1)) = Inr absent \<and>
   div_assign sample_registry (sample_amount 1000 2 1) (Other absent) = Inl DivideByZero \<and>
   div_assign sample_registry (sample_amount 300 2 1) This \<noteq> Inl DivideByZero \<and>
   (\<exists>q'. div_assign sample_registry (sample_amount 1000 2 1) (Other (sample_amount 300 2 1)) =
            Inr ((sample_amount 1000 2 1)\<lparr>quantity := Some q'\<rparr>) \<and>
         val q' = 333333333 \<and> prec q' = 8)"
  using div_assign_amended [of absent sample_registry "Other (sample_amount 300 2 1)"]
        div_assign_amended [of "sample_amount 1000 2 1" sample_registry "Other absent"]
        div_assign_amended [of "sample_amount 300 2 1" sample_registry This]
        div_assign_amended [of "sample_amount 1000 2 1" sample_registry _
           "new_bigint\<lparr>val := 1000, prec := 2\<rparr>" "sample_amount 300 2 1"
           "new_bigint\<lparr>val := 300, prec := 2\<rparr>" "(new_commodity ''$'')\<lparr>precision := 2\<rparr>"]
  by (simp add: absent_def sample_amount_def sample_registry_def deref_def mpz_tdiv_q_def
        new_bigint_def operand_amount_def)

text \<open>
  C2 as the specification states it fails where neither operand has a quantity: the
  divisor's quantity is absent and DivideByZero is not raised.
\<close>

theorem divide_absent_by_absent:
  "quantity absent = None \<and>
   div_assign sample_registry absent (Other absent) \<noteq> Inl DivideByZero \<and>
   amount_divide sample_registry absent absent \<noteq> Inl DivideByZero"
  by (simp add: absent_def div_assign_def amount_divide_def amount_copy_ctor_def)

subsection \<open>Commodity mismatch in addition and subtraction\<close>

text \<open>
  C3, as amended. Addition and subtraction of two amounts whose quantities are both
  present raise CommodityMismatch exactly when the two commodity pointers differ,
  whether or not one of them is the null commodity.
\<close>

theorem add_sub_mismatch_iff:
  assumes "quantity a = Some qa" and "quantity b = Some qb"
  shows "(add_assign a b = Inl CommodityMismatch) = (commodity a \<noteq> commodity b) \<and>
         (sub_assign a b = Inl CommodityMismatch) = (commodity a \<noteq> commodity b)"
  using assms
  by (simp add: add_assign_def sub_assign_def combine_mismatch amount_dup_def Let_def)

text \<open>Dollars and euros do not add; dollars and dollars do.\<close>

theorem add_sub_mismatch_iff_witness:
  "add_assign (sample_amount 100 2 1) (sample_amount 100 2 2) = Inl CommodityMismatch \<and>
   sub_assign (sample_amount 100 2 1) (sample_amount 100 2 2) = Inl CommodityMismatch \<and>
   add_assign (sample_amount 100 2 1) (sample_amount 250 2 1) \<noteq> Inl CommodityMismatch"
  using add_sub_mismatch_iff [of "sample_amount 100 2 1" _ "sample_amount 100 2 2"]
        add_sub_mismatch_iff [of "sample_amount 100 2 1" _ "sample_amount 250 2 1"]
  by (simp add: sample_amount_def)

text \<open>
  C3 as the specification states it fails for one dollar and the integer 1, whose
  commodity is the null commodity: both quantities are present and the sum and the
  difference raise CommodityMismatch.
\<close>

theorem add_null_commodity_mismatch:
  "quantity (sample_amount 100 2 1) \<noteq> None \<and>
   quantity (amount_of_int sample_registry 1) \<noteq> None \<and>
   commodity (amount_of_int sample_registry 1) = null_commodity sample_registry \<and>
   add_assign (sample_amount 100 2 1) (amount_of_int sample_registry 1) = Inl CommodityMismatch \<and>
   sub_assign (sample_amount 100 2 1) (amount_of_int sample_registry 1) = Inl CommodityMismatch"
  by (simp add: sample_amount_def sample_registry_def amount_of_int_def add_assign_def
        sub_assign_def combine_def amount_dup_def new_bigint_def Let_def)

subsection \<open>Comparison with an absent quantity\<close>

text \<open>
  C4. The specification has every comparison treat an absent quantity as zero. Parsing
  \<open>0\<close> gives an amount whose value is zero, and the absent amount does not compare
  equal to it; the absent amount compares greater than or equal to the integer 1; and
  the integer 1 does not compare greater than the absent amount.
\<close>

theorem absent_is_not_zero_in_comparisons:
  "parse_string (initialize_amounts static_init) absent ''0'' =
     Inr (initialize_amounts static_init, sample_amount 0 0 0, \<lparr>rest = [], eof = True\<rparr>) \<and>
   amount_cmp_amount Eq (initialize_amounts static_init) absent (sample_amount 0 0 0) = Inr False \<and>
   amount_cmp_amount Ge (initialize_amounts static_init) absent
     (amount_of_int (initialize_amounts static_init) 1) = Inr True \<and>
   amount_cmp_amount Gt (initialize_amounts static_init)
     (amount_of_int (initialize_amounts static_init) 1) absent = Inr False"
  apply (intro conjI)
     apply (simp add: parse_defs sample_amount_def)
    apply (simp add: amount_cmp_amount_def amount_cmp_zero_def absent_def sample_amount_def
      new_bigint_def mpz_sgn_def)
   apply (simp add: amount_cmp_amount_def amount_cmp_zero_def absent_def amount_of_int_def
      new_bigint_def mpz_sgn_def)
  apply (simp add: amount_cmp_amount_def amount_cmp_zero_def absent_def amount_of_int_def
      new_bigint_def mpz_sgn_def)
  done

subsection \<open>The division of scenario S3\<close>

text \<open>
  C5, as amended. Parsing \<open>$10.00\<close> and \<open>$3.00\<close> and dividing the first by the second
  gives a result of scale \<open>2 + 6 = 8\<close> and magnitude \<open>333333333\<close>; formatted at the
  commodity's precision 2 it reads \<open>$3.33\<close>.
\<close>

theorem S3_quotient_has_scale_eight:
  "divide_parsed ''$10.00'' ''$3.00'' = Inr (dollar_registry, sample_amount 333333333 8 1) \<and>
   magnitude (sample_amount 333333333 8 1) = Some 333333333 \<and>
   scale (sample_amount 333333333 8 1) = Some 8 \<and>
   format_amount dollar_registry (sample_amount 333333333 8 1) = Inr ''$3.33''"
  apply (simp only: divide_parsed_dollars format_quotient)
  apply (simp add: magnitude_def scale_def sample_amount_def)
  done

text \<open>
  C5 as the specification states it fails: the result has neither scale 6 nor
  magnitude 3333333.
\<close>

theorem S3_quotient_not_scale_six:
  "divide_parsed ''$10.00'' ''$3.00'' = Inr (dollar_registry, sample_amount 333333333 8 1) \<and>
   magnitude (sample_amount 333333333 8 1) \<noteq> Some 3333333 \<and>
   scale (sample_amount 333333333 8 1) \<noteq> Some 6"
  apply (simp only: divide_parsed_dollars)
  apply (simp add: magnitude_def scale_def sample_amount_def)
  done

subsection \<open>Scenario S1: parse and format with thousands\<close>

text \<open>
  C6. Parsing \<open>$1,234.50\<close> under a fresh registry gives an amount of magnitude 123450
  and scale 2, and interns the commodity \<open>$\<close> with the flag THOUSANDS alone and the
  precision 2; formatting that amount gives \<open>$1,234.50\<close> again.
\<close>

theorem S1_parse_and_format:
  "parse_string (initialize_amounts static_init) absent ''$1,234.50'' =
     Inr (\<lparr>heap = [\<lparr>symbol = [], quote = False, precision = 0, flags = {}\<rparr>,
                  \<lparr>symbol = ''$'', quote = False, precision = 2, flags = {THOUSANDS}\<rparr>],
           commodities = [[] \<mapsto> 0, ''$'' \<mapsto> 1],
           null_commodity = Some 0,
           true_value = \<lparr>val = 1, prec = 0, bigint_flags = 0, ref = 1, index = 0\<rparr>\<rparr>,
          sample_amount 123450 2 1,
          \<lparr>rest = [], eof = True\<rparr>) \<and>
   magnitude (sample_amount 123450 2 1) = Some 123450 \<and>
   scale (sample_amount 123450 2 1) = Some 2 \<and>
   format_amount
     \<lparr>heap = [\<lparr>symbol = [], quote = False, precision = 0, flags = {}\<rparr>,
              \<lparr>symbol = ''$'', quote = False, precision = 2, flags = {THOUSANDS}\<rparr>],
       commodities = [[] \<mapsto> 0, ''$'' \<mapsto> 1],
       null_commodity = Some 0,
       true_value = \<lparr>val = 1, prec = 0, bigint_flags = 0, ref = 1, index = 0\<rparr>\<rparr>
     (sample_amount 123450 2 1) = Inr ''$1,234.50''"
  apply (intro conjI)
     apply (simp add: parse_defs sample_amount_def)
    apply (simp add: magnitude_def sample_amount_def)
   apply (simp add: scale_def sample_amount_def)
  apply (simp add: format_defs sample_amount_def new_bigint_def)
  done

subsection \<open>Incomparable commodities\<close>

text \<open>
  C7. For two amounts whose quantities are both present and whose commodities are
  distinct and neither the null commodity, each of the comparisons \<open><\<close>, \<open>\<le>\<close>, \<open>>\<close>,
  \<open>\<ge>\<close> and \<open>=\<close> returns false.
\<close>

theorem incomparable_commodities:
  assumes "quantity a \<noteq> None" and "quantity b \<noteq> None"
    and "commodity a \<noteq> commodity b"
    and "commodity a \<noteq> null_commodity st" and "commodity b \<noteq> null_commodity st"
  shows "amount_cmp_amount opr st a b = Inr False"
  using assms by (auto simp: amount_cmp_amount_def)

text \<open>One dollar against one euro.\<close>

theorem incomparable_commodities_witness:
  "amount_cmp_amount Lt sample_registry (sample_amount 100 2 1) (sample_amount 100 2 2) = Inr False \<and>
   amount_cmp_amount Gt sample_registry (sample_amount 100 2 1) (sample_amount 100 2 2) = Inr False \<and>
   amount_cmp_amount Eq sample_registry (sample_amount 100 2 1) (sample_amount 100 2 2) = Inr False"
  using incomparable_commodities [of "sample_amount 100 2 1" "sample_amount 100 2 2" sample_registry]
  by (simp add: sample_amount_def sample_registry_def)

subsection \<open>The invariant of an amount\<close>

text \<open>
  C8. The specification has every operation, a parse that aborts included, keep the
  quantity present exactly when the commodity is. The absent amount is valid; parsing
  into it a quoted symbol that is never closed raises the error after \<^verbatim>\<open>_init\<close>
  has allocated the cell and before the commodity is set, and leaves the receiver with
  a quantity and no commodity, which \<^verbatim>\<open>valid()\<close> rejects.
\<close>

theorem parse_abort_leaves_invalid_amount:
  "valid absent \<and>
   parse_string (initialize_amounts static_init) absent (CHR 0x22 # ''abc'') =
     Inl (UnterminatedQuote, \<lparr>quantity = Some new_bigint, commodity = None\<rparr>) \<and>
   \<not> valid \<lparr>quantity = Some new_bigint, commodity = None\<rparr>"
  by (simp add: parse_defs valid_def)

subsection \<open>Multiplication by an absent amount\<close>

text \<open>
  C9. When \<open>b\<close> has no quantity, \<^verbatim>\<open>a *= b\<close> leaves \<open>a\<close> as it is, and
  \<^verbatim>\<open>a * b\<close> is the copy of \<open>a\<close>: the same magnitude, scale and commodity, the cell
  counting one more reference.
\<close>

theorem multiply_by_absent:
  assumes "quantity b = None"
  shows "mul_assign st a b = Inr a \<and>
         amount_times st a b =
           Inr (if quantity a = None then absent
                else a\<lparr>quantity := map_option (\<lambda>q. q\<lparr>ref := ref q + 1\<rparr>) (quantity a)\<rparr>)"
  using assms
  by (auto simp: mul_assign_def amount_times_def amount_copy_ctor_def absent_def
           split: option.splits)

text \<open>A dollar and a half times the absent amount.\<close>

theorem multiply_by_absent_witness:
  "mul_assign sample_registry (sample_amount 150 2 1) absent = Inr (sample_amount 150 2 1) \<and>
   amount_times sample_registry (sample_amount 150 2 1) absent =
     Inr \<lparr>quantity = Some (new_bigint\<lparr>val := 150, prec := 2, ref := 2\<rparr>), commodity = Some 1\<rparr>"
  using multiply_by_absent [of absent sample_registry "sample_amount 150 2 1"]
  by (simp add: absent_def sample_amount_def new_bigint_def)

subsection \<open>Assignment of an integer\<close>

text \<open>
  C10. The specification has every nonzero integer source give a quantity at scale 0
  under the null commodity. Parsing \<open>$1.50\<close> gives an amount of scale 2 that alone
  holds its cell; assigning the integer 5 to it keeps the cell and its scale, so that
  the amount holds 5 at scale 2, which is 0.05, whereas the amount constructed from 5
  has scale 0.
\<close>

theorem assign_int_keeps_scale:
  "parse_string (initialize_amounts static_init) absent ''$1.50'' =
     Inr (dollar_registry, sample_amount 150 2 1, \<lparr>rest = [], eof = True\<rparr>) \<and>
   assign_int dollar_registry (sample_amount 150 2 1) 5 = sample_amount 5 2 0 \<and>
   scale (sample_amount 5 2 0) = Some 2 \<and>
   amount_of_int dollar_registry 5 = sample_amount 5 0 0"
  apply (intro conjI)
     apply (simp add: parse_defs dollar_registry_def sample_amount_def)
    apply (simp add: assign_int_def amount_init_def sample_amount_def dollar_registry_def
      new_bigint_def Let_def)
   apply (simp add: scale_def sample_amount_def)
  apply (simp add: amount_of_int_def sample_amount_def dollar_registry_def new_bigint_def)
  done

end
